theory Spec2Isabelle
  imports Complex_Main
begin

section \<open>Turn-by-turn navigation: geometry, route matching and the navigation state\<close>

text \<open>
  This development embeds the class \<open>TurnByTurnNavigation\<close>: the geometry helpers
  (\<open>calculateDistance\<close>, \<open>distanceToLineSegment\<close>, \<open>calculateDistanceToRoute\<close>,
  \<open>calculateDistanceAlongRoute\<close>) and the navigation methods
  (\<open>handleLocationUpdate\<close>, \<open>updateNavigation\<close>, \<open>updateNavigationUI\<close>,
  \<open>advanceToNextStep\<close>, \<open>arriveAtDestination\<close>, \<open>handleOffRoute\<close>,
  \<open>calculateRoute\<close>, \<open>startNavigationWithRoute\<close>, \<open>stopNavigation\<close>).

  JavaScript numbers are modelled as mathematical reals (no rounding, no NaN); the one
  place where the code relies on \<open>Infinity\<close> is kept by the type \<open>js_number\<close>.
  Fields of the object become fields of the record \<open>nav\<close>; a method becomes a function
  from \<open>nav\<close> to \<open>nav\<close>. The host's timer queue and the outstanding route requests are
  part of the record, so that a \<open>setTimeout\<close> callback and the continuation after an
  \<open>await\<close> are events of their own. Time itself is not modelled: a timer that has been
  set may fire at any later event, and every event processed before it fires happens
  before its delay has elapsed.
\<close>

subsection \<open>Geometry\<close>

text \<open>\<open>Math.atan2(y, x)\<close> on reals (signed zeros do not exist here).\<close>

definition atan2 :: "real \<Rightarrow> real \<Rightarrow> real" where
  "atan2 y x =
     (if 0 < x then arctan (y / x)
      else if x < 0 then (if 0 \<le> y then arctan (y / x) + pi else arctan (y / x) - pi)
      else if 0 < y then pi / 2
      else if y < 0 then - (pi / 2)
      else 0)"

text \<open>Haversine distance in metres; arguments in degrees.\<close>

definition calculateDistance :: "real \<Rightarrow> real \<Rightarrow> real \<Rightarrow> real \<Rightarrow> real" where
  "calculateDistance lat1 lon1 lat2 lon2 =
     (let R = 6371000;
          phi1 = lat1 * pi / 180;
          phi2 = lat2 * pi / 180;
          dphi = (lat2 - lat1) * pi / 180;
          dlam = (lon2 - lon1) * pi / 180;
          a = sin (dphi / 2) * sin (dphi / 2) +
              cos phi1 * cos phi2 * sin (dlam / 2) * sin (dlam / 2);
          c = 2 * atan2 (sqrt a) (sqrt (1 - a))
      in R * c)"

definition distanceToLineSegment ::
  "real \<Rightarrow> real \<Rightarrow> real \<Rightarrow> real \<Rightarrow> real \<Rightarrow> real \<Rightarrow> real" where
  "distanceToLineSegment px py x1 y1 x2 y2 =
     (let A = px - x1;
          B = py - y1;
          C = x2 - x1;
          D = y2 - y1;
          dot = A * C + B * D;
          lenSq = C * C + D * D;
          param = (if lenSq \<noteq> 0 then dot / lenSq else - 1)
      in if param < 0 then calculateDistance px py x1 y1
         else if 1 < param then calculateDistance px py x2 y2
         else calculateDistance px py (x1 + param * C) (y1 + param * D))"

text \<open>A JavaScript number that may be \<open>Infinity\<close> (the start value of the minimum scans).\<close>

datatype js_number = Num real | Infinity

fun js_min :: "js_number \<Rightarrow> real \<Rightarrow> js_number" where
  "js_min Infinity d = Num d"
| "js_min (Num m) d = Num (min m d)"

fun js_less :: "real \<Rightarrow> js_number \<Rightarrow> bool" where
  "js_less d Infinity = True"
| "js_less d (Num m) = (d < m)"

fun js_greater :: "js_number \<Rightarrow> real \<Rightarrow> bool" where
  "js_greater Infinity t = True"
| "js_greater (Num m) t = (t < m)"

subsection \<open>Data\<close>

text \<open>A GeoJSON coordinate is the pair \<open>[lng, lat]\<close>: \<open>fst\<close> is index 0, \<open>snd\<close> index 1.\<close>

type_synonym coord = "real \<times> real"

record position =
  lat :: real
  lng :: real
  accuracy :: real
  speed :: "real option"
  heading :: "real option"
  timestamp :: real

text \<open>A step of the routing provider's answer, as \<open>formatInstruction\<close> reads it.\<close>

record osrm_step =
  maneuver_type :: string
  maneuver_modifier :: "string option"
  maneuver_exit :: "string option"
  maneuver_location :: coord
  step_name :: "string option"
  step_distance :: real
  step_duration :: real

record osrm_route =
  route_distance :: real
  route_duration :: real
  route_geometry :: "coord list"
  route_steps :: "osrm_step list"

record nav_step =
  instruction :: string
  distance :: real
  duration :: real
  name :: string
  distanceFromStart :: real
  location :: coord

text \<open>
  What is handed to the speech synthesiser: a plain text, or the text
  \<open>In <distanceText>, <instruction>\<close> of \<open>updateNavigationUI\<close>, kept as the distance and
  the instruction it was built from.
\<close>

datatype speech = Say string | SayIn real string

datatype callback = RecalculationCallback | ArrivalCallback

record nav =
  currentPosition :: "position option"
  destinationMarker :: "(real \<times> real) option"
  isNavigating :: bool
  steps :: "nav_step list"
  currentStepIndex :: nat
  totalDistance :: real
  totalDuration :: real
  remainingDistance :: real
  routeGeometry :: "coord list"
  routeLine :: "(real \<times> real) list option"
  voiceEnabled :: bool
  lastSpokenInstruction :: "string option"
  currentSpeed :: real
  offRouteThreshold :: real
  recalculationTimeout :: "nat option"
  timers :: "(nat \<times> callback) list"
  nextTimerId :: nat
  pendingRouteRequests :: nat
  routeRequests :: "(real \<times> real \<times> real \<times> real) list"
  spoken :: "speech list"
  toasts :: "string list"
  uncaughtErrors :: nat

subsection \<open>Host services\<close>

text \<open>
  \<open>speakInstruction\<close> returns at once when voice is disabled; the synthesiser itself is
  taken to be present. \<open>spoken\<close> is the log of what was handed to it.
\<close>

definition speakInstruction :: "speech \<Rightarrow> nav \<Rightarrow> nav" where
  "speakInstruction text s =
     (if \<not> voiceEnabled s then s else s\<lparr>spoken := spoken s @ [text]\<rparr>)"

definition showToast :: "string \<Rightarrow> nav \<Rightarrow> nav" where
  "showToast message s = s\<lparr>toasts := toasts s @ [message]\<rparr>"

text \<open>\<open>setTimeout\<close>: queues the callback under a fresh handle and returns the handle.\<close>

definition setTimeout :: "callback \<Rightarrow> nav \<Rightarrow> nat \<times> nav" where
  "setTimeout cb s =
     (nextTimerId s,
      s\<lparr>timers := timers s @ [(nextTimerId s, cb)], nextTimerId := Suc (nextTimerId s)\<rparr>)"

definition clearTimeout :: "nat \<Rightarrow> nav \<Rightarrow> nav" where
  "clearTimeout h s = s\<lparr>timers := filter (\<lambda>t. fst t \<noteq> h) (timers s)\<rparr>"

subsection \<open>Route model\<close>

text \<open>\<open>x || d\<close> on an optional string: \<open>undefined\<close> and the empty string give \<open>d\<close>.\<close>

fun or_else :: "string option \<Rightarrow> string \<Rightarrow> string" where
  "or_else None d = d"
| "or_else (Some x) d = (if x = [] then d else x)"

text \<open>A template literal prints \<open>undefined\<close> for a missing value.\<close>

fun template :: "string option \<Rightarrow> string" where
  "template None = ''undefined''"
| "template (Some x) = x"

definition formatInstruction :: "osrm_step \<Rightarrow> string" where
  "formatInstruction step =
     (let type = maneuver_type step;
          modifier = maneuver_modifier step;
          name = or_else (step_name step) [];
          instruction =
            (if type = ''depart'' then ''Head '' @ or_else modifier ''forward''
             else if type = ''turn'' then ''Turn '' @ template modifier
             else if type = ''new name'' then ''Continue''
             else if type = ''arrive'' then ''You have arrived at your destination''
             else if type = ''merge'' then ''Merge '' @ or_else modifier []
             else if type = ''on ramp'' then ''Take the ramp '' @ or_else modifier []
             else if type = ''off ramp'' then ''Take the exit '' @ or_else modifier []
             else if type = ''fork'' then ''At the fork, take '' @ template modifier
             else if type = ''roundabout'' then
               ''At the roundabout, take exit '' @ or_else (maneuver_exit step) []
             else if type = ''continue'' then ''Continue '' @ or_else modifier ''straight''
             else ''Continue'')
      in if name \<noteq> [] \<and> type \<noteq> ''arrive'' then instruction @ '' onto '' @ name
         else instruction)"

text \<open>The \<open>forEach\<close> that fills \<open>this.steps\<close>, with its running \<open>distanceOffset\<close>.\<close>

fun extractSteps :: "real \<Rightarrow> osrm_step list \<Rightarrow> nav_step list" where
  "extractSteps distanceOffset [] = []"
| "extractSteps distanceOffset (step # rest) =
     \<lparr>instruction = formatInstruction step,
      distance = step_distance step,
      duration = step_duration step,
      name = or_else (step_name step) ''Unnamed road'',
      distanceFromStart = distanceOffset,
      location = maneuver_location step\<rparr>
     # extractSteps (distanceOffset + step_distance step) rest"

text \<open>\<open>drawRoute\<close>: the line on the map is the geometry with each pair swapped.\<close>

definition drawRoute :: "nav \<Rightarrow> nav" where
  "drawRoute s = s\<lparr>routeLine := Some (map (\<lambda>c. (snd c, fst c)) (routeGeometry s))\<rparr>"

text \<open>The assignments shared by \<open>startNavigationWithRoute\<close> and \<open>calculateRoute\<close>.\<close>

definition storeRoute :: "osrm_route \<Rightarrow> nav \<Rightarrow> nav" where
  "storeRoute r s =
     drawRoute (s\<lparr>totalDistance := route_distance r,
                  totalDuration := route_duration r,
                  remainingDistance := route_distance r,
                  routeGeometry := route_geometry r,
                  steps := extractSteps 0 (route_steps r)\<rparr>)"

definition startNavigationWithRoute :: "osrm_route \<Rightarrow> nav \<Rightarrow> nav" where
  "startNavigationWithRoute selectedRoute s =
     (let s1 = storeRoute selectedRoute s;
          s2 = s1\<lparr>isNavigating := True, currentStepIndex := 0\<rparr>;
          s3 = (case steps s2 of [] \<Rightarrow> s2
                | st # _ \<Rightarrow> speakInstruction (Say (instruction st)) s2)
      in showToast ''Navigation started!'' s3)"

subsection \<open>Map matching\<close>

text \<open>The loop of \<open>calculateDistanceToRoute\<close> over consecutive pairs of the geometry.\<close>

fun scanSegments :: "position \<Rightarrow> coord list \<Rightarrow> js_number \<Rightarrow> js_number" where
  "scanSegments pos (point1 # point2 # rest) minDistance =
     scanSegments pos (point2 # rest)
       (js_min minDistance
          (distanceToLineSegment (lat pos) (lng pos)
             (snd point1) (fst point1) (snd point2) (fst point2)))"
| "scanSegments pos [point1] minDistance = minDistance"
| "scanSegments pos [] minDistance = minDistance"

definition calculateDistanceToRoute :: "position \<Rightarrow> nav \<Rightarrow> js_number" where
  "calculateDistanceToRoute pos s =
     (if routeGeometry s = [] then Num 0
      else scanSegments pos (routeGeometry s) Infinity)"

text \<open>
  The first loop of \<open>calculateDistanceAlongRoute\<close>: \<open>i\<close> is the index of the head of the
  remaining list; the result is \<open>closestIndex\<close>.
\<close>

fun scanVertices :: "position \<Rightarrow> coord list \<Rightarrow> nat \<Rightarrow> js_number \<Rightarrow> nat \<Rightarrow> nat" where
  "scanVertices pos [] i minDistance closestIndex = closestIndex"
| "scanVertices pos (point # rest) i minDistance closestIndex =
     (let d = calculateDistance (lat pos) (lng pos) (snd point) (fst point)
      in if js_less d minDistance then scanVertices pos rest (Suc i) (Num d) i
         else scanVertices pos rest (Suc i) minDistance closestIndex)"

text \<open>The second loop: the length of the first \<open>n\<close> segments.\<close>

fun lengthOfSegments :: "nat \<Rightarrow> coord list \<Rightarrow> real" where
  "lengthOfSegments (Suc n) (point1 # point2 # rest) =
     calculateDistance (snd point1) (fst point1) (snd point2) (fst point2)
     + lengthOfSegments n (point2 # rest)"
| "lengthOfSegments n ps = 0"

definition calculateDistanceAlongRoute :: "position \<Rightarrow> nav \<Rightarrow> real" where
  "calculateDistanceAlongRoute pos s =
     lengthOfSegments (scanVertices pos (routeGeometry s) 0 Infinity 0) (routeGeometry s)"

subsection \<open>Navigation state machine\<close>

text \<open>Truthiness of a timer handle held in a field: \<open>null\<close> and \<open>0\<close> are falsy.\<close>

fun truthy :: "nat option \<Rightarrow> bool" where
  "truthy None = False"
| "truthy (Some h) = (h \<noteq> 0)"

definition updateNavigationUI :: "real \<Rightarrow> nav_step \<Rightarrow> nav \<Rightarrow> nav" where
  "updateNavigationUI d step s =
     (if d < 200 \<and> Some (instruction step) \<noteq> lastSpokenInstruction s
      then (speakInstruction (SayIn d (instruction step)) s)
             \<lparr>lastSpokenInstruction := Some (instruction step)\<rparr>
      else s)"

definition arriveAtDestination :: "nav \<Rightarrow> nav" where
  "arriveAtDestination s =
     snd (setTimeout ArrivalCallback
            (showToast ''You have arrived!''
               (speakInstruction (Say ''You have arrived at your destination'') s)))"

definition advanceToNextStep :: "nav \<Rightarrow> nav" where
  "advanceToNextStep s =
     (let s1 = s\<lparr>currentStepIndex := Suc (currentStepIndex s)\<rparr>
      in if length (steps s1) \<le> currentStepIndex s1 then arriveAtDestination s1
         else (let nextStep = steps s1 ! currentStepIndex s1
               in (speakInstruction (Say (instruction nextStep)) s1)
                    \<lparr>lastSpokenInstruction := Some (instruction nextStep)\<rparr>))"

definition handleOffRoute :: "nav \<Rightarrow> nav" where
  "handleOffRoute s =
     (if truthy (recalculationTimeout s) then s
      else (let s1 = speakInstruction (Say ''Recalculating route'')
                       (showToast ''Recalculating route...'' s);
                t = setTimeout RecalculationCallback s1
            in (snd t)\<lparr>recalculationTimeout := Some (fst t)\<rparr>))"

definition updateNavigation :: "nav \<Rightarrow> nav" where
  "updateNavigation s =
     (if \<not> isNavigating s then s
      else case currentPosition s of
        None \<Rightarrow> s
      | Some pos \<Rightarrow>
          if length (steps s) \<le> currentStepIndex s then arriveAtDestination s
          else (let currentStep = steps s ! currentStepIndex s;
                    distanceToStep =
                      calculateDistance (lat pos) (lng pos)
                        (snd (location currentStep)) (fst (location currentStep));
                    s1 = s\<lparr>remainingDistance :=
                             distanceFromStart currentStep + distance currentStep
                             - calculateDistanceAlongRoute pos s\<rparr>;
                    s2 = updateNavigationUI distanceToStep currentStep s1;
                    s3 = (if distanceToStep < 20 then advanceToNextStep s2 else s2);
                    distanceToRoute = calculateDistanceToRoute pos s3
                in if js_greater distanceToRoute (offRouteThreshold s3)
                   then handleOffRoute s3 else s3))"

definition handleLocationUpdate :: "position \<Rightarrow> nav \<Rightarrow> nav" where
  "handleLocationUpdate p s =
     (let s1 = s\<lparr>currentPosition := Some p\<rparr>;
          s2 = (case speed p of
                  None \<Rightarrow> s1
                | Some v \<Rightarrow> if 0 \<le> v then s1\<lparr>currentSpeed := v * 3.6\<rparr> else s1)
      in if isNavigating s2 then updateNavigation s2 else s2)"

definition stopNavigation :: "nav \<Rightarrow> nav" where
  "stopNavigation s =
     (let s1 = s\<lparr>isNavigating := False, currentStepIndex := 0,
                  lastSpokenInstruction := None\<rparr>;
          s2 = (case recalculationTimeout s1 of
                  None \<Rightarrow> s1
                | Some h \<Rightarrow>
                    if h \<noteq> 0 then (clearTimeout h s1)\<lparr>recalculationTimeout := None\<rparr>
                    else s1);
          s3 = s2\<lparr>routeLine := None, destinationMarker := None\<rparr>
      in showToast ''Navigation stopped'' s3)"

text \<open>
  The callback given to \<open>setTimeout\<close> in \<open>handleOffRoute\<close>, up to its \<open>await\<close>: it reads
  the destination marker (outside the \<open>try\<close>, so a missing marker is an uncaught error of
  the callback), then calls \<open>calculateRoute\<close>, which sends the request.
\<close>

definition recalculationStart :: "nav \<Rightarrow> nav" where
  "recalculationStart s =
     (case destinationMarker s of
        None \<Rightarrow> s\<lparr>uncaughtErrors := Suc (uncaughtErrors s)\<rparr>
      | Some destLatLng \<Rightarrow>
          (case currentPosition s of
             None \<Rightarrow> (showToast ''Failed to recalculate route'' s)
                        \<lparr>recalculationTimeout := None\<rparr>
           | Some pos \<Rightarrow>
               s\<lparr>routeRequests := routeRequests s @
                     [(lat pos, lng pos, fst destLatLng, snd destLatLng)],
                 pendingRouteRequests := Suc (pendingRouteRequests s)\<rparr>))"

text \<open>
  The rest of the callback, run when the provider answers: \<open>Some r\<close> is a response with
  code \<open>Ok\<close>, \<open>None\<close> a failed request (the \<open>catch\<close> branch).
\<close>

definition recalculationFinish :: "osrm_route option \<Rightarrow> nav \<Rightarrow> nav" where
  "recalculationFinish response s =
     (if pendingRouteRequests s = 0 then s
      else (let s0 = s\<lparr>pendingRouteRequests := pendingRouteRequests s - 1\<rparr>;
                s1 = (case response of
                        Some r \<Rightarrow>
                          showToast ''Route recalculated''
                            ((storeRoute r s0)\<lparr>currentStepIndex := 0,
                                               lastSpokenInstruction := None\<rparr>)
                      | None \<Rightarrow> showToast ''Failed to recalculate route'' s0)
            in s1\<lparr>recalculationTimeout := None\<rparr>))"

subsection \<open>Events\<close>

datatype event =
    LocationUpdate position
  | TimerFires nat
  | RouteResponse "osrm_route option"
  | StopPressed

definition timerFires :: "nat \<Rightarrow> nav \<Rightarrow> nav" where
  "timerFires h s =
     (case map_of (timers s) h of
        None \<Rightarrow> s
      | Some cb \<Rightarrow>
          (let s1 = s\<lparr>timers := filter (\<lambda>t. fst t \<noteq> h) (timers s)\<rparr>
           in case cb of
                RecalculationCallback \<Rightarrow> recalculationStart s1
              | ArrivalCallback \<Rightarrow> stopNavigation s1))"

fun handleEvent :: "event \<Rightarrow> nav \<Rightarrow> nav" where
  "handleEvent (LocationUpdate p) s = handleLocationUpdate p s"
| "handleEvent (TimerFires h) s = timerFires h s"
| "handleEvent (RouteResponse r) s = recalculationFinish r s"
| "handleEvent StopPressed s = stopNavigation s"

fun run :: "event list \<Rightarrow> nav \<Rightarrow> nav" where
  "run [] s = s"
| "run (e # es) s = run es (handleEvent e s)"

text \<open>The object as the constructor leaves it, with a destination chosen.\<close>

definition initialNav :: "(real \<times> real) \<Rightarrow> nav" where
  "initialNav dest =
     \<lparr>currentPosition = None, destinationMarker = Some dest, isNavigating = False,
      steps = [], currentStepIndex = 0, totalDistance = 0, totalDuration = 0,
      remainingDistance = 0, routeGeometry = [], routeLine = None,
      voiceEnabled = True, lastSpokenInstruction = None, currentSpeed = 0,
      offRouteThreshold = 50, recalculationTimeout = None, timers = [],
      nextTimerId = 1, pendingRouteRequests = 0, routeRequests = [], spoken = [],
      toasts = [], uncaughtErrors = 0\<rparr>"

subsection \<open>Observations\<close>

text \<open>How often arrival has been declared (the toast of \<open>arriveAtDestination\<close>).\<close>

definition arrivals :: "nav \<Rightarrow> nat" where
  "arrivals s = length (filter (\<lambda>m. m = ''You have arrived!'') (toasts s))"

text \<open>
  The number of proximity announcements (\<open>In <distance>, <instruction>\<close>) in a speech
  log, and the number of them issued over a run of position updates by the updates that
  started with step index \<open>i\<close> current.
\<close>

fun proximityAnnouncements :: "speech list \<Rightarrow> nat" where
  "proximityAnnouncements [] = 0"
| "proximityAnnouncements (Say t # xs) = proximityAnnouncements xs"
| "proximityAnnouncements (SayIn d t # xs) = Suc (proximityAnnouncements xs)"



text \<open>
  The quantities the two scans of the map matcher range over: the distance to each
  segment, the distance to vertex \<open>j\<close>, the length of segment \<open>i\<close>, and the index the
  vertex scan ends with.
\<close>

fun segmentDistances :: "position \<Rightarrow> coord list \<Rightarrow> real list" where
  "segmentDistances pos (point1 # point2 # rest) =
     distanceToLineSegment (lat pos) (lng pos)
       (snd point1) (fst point1) (snd point2) (fst point2)
     # segmentDistances pos (point2 # rest)"
| "segmentDistances pos [point1] = []"
| "segmentDistances pos [] = []"

definition vertexDistance :: "position \<Rightarrow> coord list \<Rightarrow> nat \<Rightarrow> real" where
  "vertexDistance pos g j = calculateDistance (lat pos) (lng pos) (snd (g ! j)) (fst (g ! j))"

definition segmentLength :: "coord list \<Rightarrow> nat \<Rightarrow> real" where
  "segmentLength g i =
     calculateDistance (snd (g ! i)) (fst (g ! i)) (snd (g ! Suc i)) (fst (g ! Suc i))"

definition closestIndex :: "position \<Rightarrow> coord list \<Rightarrow> nat" where
  "closestIndex pos g = scanVertices pos g 0 Infinity 0"

subsection \<open>The specification's distance along the polyline\<close>

text \<open>
  For comparison with \<open>calculateDistanceAlongRoute\<close>, the specification's
  \<open>nearestPointOnPolyline\<close> in its own words: scan every consecutive segment pair, keep
  the minimum \<open>distanceToSegment\<close>, and report the polyline length accumulated up to the
  start of that segment plus the projected offset within the segment. The offset is the
  distance from the segment's start to the clamped foot of the perpendicular that
  \<open>distanceToLineSegment\<close> computes.
\<close>

definition projectedOffset ::
  "real \<Rightarrow> real \<Rightarrow> real \<Rightarrow> real \<Rightarrow> real \<Rightarrow> real \<Rightarrow> real" where
  "projectedOffset px py x1 y1 x2 y2 =
     (let A = px - x1;
          B = py - y1;
          C = x2 - x1;
          D = y2 - y1;
          dot = A * C + B * D;
          lenSq = C * C + D * D;
          param = (if lenSq \<noteq> 0 then dot / lenSq else - 1)
      in if param < 0 then 0
         else if 1 < param then calculateDistance x1 y1 x2 y2
         else calculateDistance x1 y1 (x1 + param * C) (y1 + param * D))"

fun spec_scan :: "position \<Rightarrow> coord list \<Rightarrow> real \<Rightarrow> js_number \<Rightarrow> real \<Rightarrow> real" where
  "spec_scan pos (point1 # point2 # rest) acc best along =
     (let d = distanceToLineSegment (lat pos) (lng pos)
                (snd point1) (fst point1) (snd point2) (fst point2);
          acc' = acc + calculateDistance (snd point1) (fst point1) (snd point2) (fst point2)
      in if js_less d best
         then spec_scan pos (point2 # rest) acc' (Num d)
                (acc + projectedOffset (lat pos) (lng pos)
                         (snd point1) (fst point1) (snd point2) (fst point2))
         else spec_scan pos (point2 # rest) acc' best along)"
| "spec_scan pos [point1] acc best along = along"
| "spec_scan pos [] acc best along = along"

definition spec_distanceAlongPolyline :: "position \<Rightarrow> coord list \<Rightarrow> real" where
  "spec_distanceAlongPolyline pos g = spec_scan pos g 0 Infinity 0"

subsection \<open>Scenarios\<close>

text \<open>A position sample on the equator at longitude \<open>x\<close>, with a 5 m accuracy radius.\<close>

definition sampleAt :: "real \<Rightarrow> position" where
  "sampleAt x = \<lparr>lat = 0, lng = x, accuracy = 5, speed = None, heading = None, timestamp = 0\<rparr>"

text \<open>
  A route of about 1.1 km eastwards along the equator, with a turn half way. One
  thousandth of a degree of longitude is about 111 m there.
\<close>

definition demoRoute :: osrm_route where
  "demoRoute =
     \<lparr>route_distance = 1112, route_duration = 120,
      route_geometry = [(0, 0), (1 / 200, 0), (1 / 100, 0)],
      route_steps =
        [\<lparr>maneuver_type = ''depart'', maneuver_modifier = None, maneuver_exit = None,
          maneuver_location = (0, 0), step_name = Some ''A Street'',
          step_distance = 556, step_duration = 60\<rparr>,
         \<lparr>maneuver_type = ''turn'', maneuver_modifier = Some ''left'', maneuver_exit = None,
          maneuver_location = (1 / 200, 0), step_name = Some ''B Street'',
          step_distance = 556, step_duration = 60\<rparr>,
         \<lparr>maneuver_type = ''arrive'', maneuver_modifier = None, maneuver_exit = None,
          maneuver_location = (1 / 100, 0), step_name = Some ''B Street'',
          step_distance = 0, step_duration = 0\<rparr>]\<rparr>"

definition demoStart :: nav where
  "demoStart = startNavigationWithRoute demoRoute (initialNav (0, 1 / 100))"

text \<open>A good fix and a later, much worse one at the same place.\<close>

definition goodSample :: position where
  "goodSample = sampleAt (3 / 1000)"

definition noisySample :: position where
  "noisySample = (sampleAt (3 / 1000))\<lparr>accuracy := 500, timestamp := 1\<rparr>"

text \<open>
  The same route with the departure manoeuvre anchored about 111 m before the first
  vertex of the polyline.
\<close>

definition sparseRoute :: osrm_route where
  "sparseRoute =
     demoRoute\<lparr>route_steps :=
       (hd (route_steps demoRoute))\<lparr>maneuver_location := (- 1 / 1000, 0)\<rparr>
       # tl (route_steps demoRoute)\<rparr>"

definition sparseStart :: nav where
  "sparseStart = startNavigationWithRoute sparseRoute (initialNav (0, 1 / 100))"

text \<open>
  The same route with a first step of about 11 m: the second anchor is within 20 m of
  the first.
\<close>

definition clusterRoute :: osrm_route where
  "clusterRoute =
     demoRoute\<lparr>route_steps :=
       [(route_steps demoRoute ! 0)\<lparr>step_distance := 11\<rparr>,
        (route_steps demoRoute ! 1)\<lparr>maneuver_location := (1 / 10000, 0),
                                     step_distance := 1101\<rparr>,
        route_steps demoRoute ! 2]\<rparr>"

definition clusterStart :: nav where
  "clusterStart = startNavigationWithRoute clusterRoute (initialNav (0, 1 / 100))"

text \<open>The provider's answer to a recalculation from 111 m west of the start.\<close>

definition detourRoute :: osrm_route where
  "detourRoute =
     \<lparr>route_distance = 1223, route_duration = 130,
      route_geometry = [(- 1 / 1000, 0), (1 / 100, 0)],
      route_steps =
        [\<lparr>maneuver_type = ''depart'', maneuver_modifier = None, maneuver_exit = None,
          maneuver_location = (- 1 / 1000, 0), step_name = Some ''C Street'',
          step_distance = 1223, step_duration = 130\<rparr>,
         \<lparr>maneuver_type = ''arrive'', maneuver_modifier = None, maneuver_exit = None,
          maneuver_location = (1 / 100, 0), step_name = Some ''C Street'',
          step_distance = 0, step_duration = 0\<rparr>]\<rparr>"

section \<open>Properties\<close>

subsection \<open>What each method leaves unchanged\<close>

lemma speakInstruction_frame [simp]:
  "currentPosition (speakInstruction t s) = currentPosition s"
  "destinationMarker (speakInstruction t s) = destinationMarker s"
  "isNavigating (speakInstruction t s) = isNavigating s"
  "steps (speakInstruction t s) = steps s"
  "currentStepIndex (speakInstruction t s) = currentStepIndex s"
  "totalDistance (speakInstruction t s) = totalDistance s"
  "totalDuration (speakInstruction t s) = totalDuration s"
  "remainingDistance (speakInstruction t s) = remainingDistance s"
  "routeGeometry (speakInstruction t s) = routeGeometry s"
  "routeLine (speakInstruction t s) = routeLine s"
  "voiceEnabled (speakInstruction t s) = voiceEnabled s"
  "lastSpokenInstruction (speakInstruction t s) = lastSpokenInstruction s"
  "currentSpeed (speakInstruction t s) = currentSpeed s"
  "offRouteThreshold (speakInstruction t s) = offRouteThreshold s"
  "recalculationTimeout (speakInstruction t s) = recalculationTimeout s"
  "timers (speakInstruction t s) = timers s"
  "nextTimerId (speakInstruction t s) = nextTimerId s"
  "pendingRouteRequests (speakInstruction t s) = pendingRouteRequests s"
  "routeRequests (speakInstruction t s) = routeRequests s"
  "toasts (speakInstruction t s) = toasts s"
  "uncaughtErrors (speakInstruction t s) = uncaughtErrors s"
  by (simp_all add: speakInstruction_def)

lemma showToast_frame [simp]:
  "currentPosition (showToast m s) = currentPosition s"
  "destinationMarker (showToast m s) = destinationMarker s"
  "isNavigating (showToast m s) = isNavigating s"
  "steps (showToast m s) = steps s"
  "currentStepIndex (showToast m s) = currentStepIndex s"
  "totalDistance (showToast m s) = totalDistance s"
  "totalDuration (showToast m s) = totalDuration s"
  "remainingDistance (showToast m s) = remainingDistance s"
  "routeGeometry (showToast m s) = routeGeometry s"
  "routeLine (showToast m s) = routeLine s"
  "voiceEnabled (showToast m s) = voiceEnabled s"
  "lastSpokenInstruction (showToast m s) = lastSpokenInstruction s"
  "currentSpeed (showToast m s) = currentSpeed s"
  "offRouteThreshold (showToast m s) = offRouteThreshold s"
  "recalculationTimeout (showToast m s) = recalculationTimeout s"
  "timers (showToast m s) = timers s"
  "nextTimerId (showToast m s) = nextTimerId s"
  "pendingRouteRequests (showToast m s) = pendingRouteRequests s"
  "routeRequests (showToast m s) = routeRequests s"
  "spoken (showToast m s) = spoken s"
  "uncaughtErrors (showToast m s) = uncaughtErrors s"
  by (simp_all add: showToast_def)

lemma setTimeout_frame [simp]:
  "currentPosition (snd (setTimeout cb s)) = currentPosition s"
  "destinationMarker (snd (setTimeout cb s)) = destinationMarker s"
  "isNavigating (snd (setTimeout cb s)) = isNavigating s"
  "steps (snd (setTimeout cb s)) = steps s"
  "currentStepIndex (snd (setTimeout cb s)) = currentStepIndex s"
  "totalDistance (snd (setTimeout cb s)) = totalDistance s"
  "totalDuration (snd (setTimeout cb s)) = totalDuration s"
  "remainingDistance (snd (setTimeout cb s)) = remainingDistance s"
  "routeGeometry (snd (setTimeout cb s)) = routeGeometry s"
  "routeLine (snd (setTimeout cb s)) = routeLine s"
  "voiceEnabled (snd (setTimeout cb s)) = voiceEnabled s"
  "lastSpokenInstruction (snd (setTimeout cb s)) = lastSpokenInstruction s"
  "currentSpeed (snd (setTimeout cb s)) = currentSpeed s"
  "offRouteThreshold (snd (setTimeout cb s)) = offRouteThreshold s"
  "recalculationTimeout (snd (setTimeout cb s)) = recalculationTimeout s"
  "pendingRouteRequests (snd (setTimeout cb s)) = pendingRouteRequests s"
  "routeRequests (snd (setTimeout cb s)) = routeRequests s"
  "spoken (snd (setTimeout cb s)) = spoken s"
  "toasts (snd (setTimeout cb s)) = toasts s"
  "uncaughtErrors (snd (setTimeout cb s)) = uncaughtErrors s"
  by (simp_all add: setTimeout_def)

lemma clearTimeout_frame [simp]:
  "currentPosition (clearTimeout h s) = currentPosition s"
  "destinationMarker (clearTimeout h s) = destinationMarker s"
  "isNavigating (clearTimeout h s) = isNavigating s"
  "steps (clearTimeout h s) = steps s"
  "currentStepIndex (clearTimeout h s) = currentStepIndex s"
  "totalDistance (clearTimeout h s) = totalDistance s"
  "totalDuration (clearTimeout h s) = totalDuration s"
  "remainingDistance (clearTimeout h s) = remainingDistance s"
  "routeGeometry (clearTimeout h s) = routeGeometry s"
  "routeLine (clearTimeout h s) = routeLine s"
  "voiceEnabled (clearTimeout h s) = voiceEnabled s"
  "lastSpokenInstruction (clearTimeout h s) = lastSpokenInstruction s"
  "currentSpeed (clearTimeout h s) = currentSpeed s"
  "offRouteThreshold (clearTimeout h s) = offRouteThreshold s"
  "recalculationTimeout (clearTimeout h s) = recalculationTimeout s"
  "nextTimerId (clearTimeout h s) = nextTimerId s"
  "pendingRouteRequests (clearTimeout h s) = pendingRouteRequests s"
  "routeRequests (clearTimeout h s) = routeRequests s"
  "spoken (clearTimeout h s) = spoken s"
  "toasts (clearTimeout h s) = toasts s"
  "uncaughtErrors (clearTimeout h s) = uncaughtErrors s"
  by (simp_all add: clearTimeout_def)

lemma updateNavigationUI_frame [simp]:
  "currentPosition (updateNavigationUI d st s) = currentPosition s"
  "destinationMarker (updateNavigationUI d st s) = destinationMarker s"
  "isNavigating (updateNavigationUI d st s) = isNavigating s"
  "steps (updateNavigationUI d st s) = steps s"
  "currentStepIndex (updateNavigationUI d st s) = currentStepIndex s"
  "totalDistance (updateNavigationUI d st s) = totalDistance s"
  "totalDuration (updateNavigationUI d st s) = totalDuration s"
  "remainingDistance (updateNavigationUI d st s) = remainingDistance s"
  "routeGeometry (updateNavigationUI d st s) = routeGeometry s"
  "routeLine (updateNavigationUI d st s) = routeLine s"
  "voiceEnabled (updateNavigationUI d st s) = voiceEnabled s"
  "currentSpeed (updateNavigationUI d st s) = currentSpeed s"
  "offRouteThreshold (updateNavigationUI d st s) = offRouteThreshold s"
  "recalculationTimeout (updateNavigationUI d st s) = recalculationTimeout s"
  "timers (updateNavigationUI d st s) = timers s"
  "nextTimerId (updateNavigationUI d st s) = nextTimerId s"
  "pendingRouteRequests (updateNavigationUI d st s) = pendingRouteRequests s"
  "routeRequests (updateNavigationUI d st s) = routeRequests s"
  "toasts (updateNavigationUI d st s) = toasts s"
  "uncaughtErrors (updateNavigationUI d st s) = uncaughtErrors s"
  by (simp_all add: updateNavigationUI_def)

lemma arriveAtDestination_frame [simp]:
  "currentPosition (arriveAtDestination s) = currentPosition s"
  "destinationMarker (arriveAtDestination s) = destinationMarker s"
  "isNavigating (arriveAtDestination s) = isNavigating s"
  "steps (arriveAtDestination s) = steps s"
  "currentStepIndex (arriveAtDestination s) = currentStepIndex s"
  "totalDistance (arriveAtDestination s) = totalDistance s"
  "totalDuration (arriveAtDestination s) = totalDuration s"
  "remainingDistance (arriveAtDestination s) = remainingDistance s"
  "routeGeometry (arriveAtDestination s) = routeGeometry s"
  "routeLine (arriveAtDestination s) = routeLine s"
  "voiceEnabled (arriveAtDestination s) = voiceEnabled s"
  "lastSpokenInstruction (arriveAtDestination s) = lastSpokenInstruction s"
  "currentSpeed (arriveAtDestination s) = currentSpeed s"
  "offRouteThreshold (arriveAtDestination s) = offRouteThreshold s"
  "recalculationTimeout (arriveAtDestination s) = recalculationTimeout s"
  "pendingRouteRequests (arriveAtDestination s) = pendingRouteRequests s"
  "routeRequests (arriveAtDestination s) = routeRequests s"
  "uncaughtErrors (arriveAtDestination s) = uncaughtErrors s"
  by (simp_all add: arriveAtDestination_def)

lemma advanceToNextStep_frame [simp]:
  "currentPosition (advanceToNextStep s) = currentPosition s"
  "destinationMarker (advanceToNextStep s) = destinationMarker s"
  "isNavigating (advanceToNextStep s) = isNavigating s"
  "steps (advanceToNextStep s) = steps s"
  "totalDistance (advanceToNextStep s) = totalDistance s"
  "totalDuration (advanceToNextStep s) = totalDuration s"
  "remainingDistance (advanceToNextStep s) = remainingDistance s"
  "routeGeometry (advanceToNextStep s) = routeGeometry s"
  "routeLine (advanceToNextStep s) = routeLine s"
  "voiceEnabled (advanceToNextStep s) = voiceEnabled s"
  "currentSpeed (advanceToNextStep s) = currentSpeed s"
  "offRouteThreshold (advanceToNextStep s) = offRouteThreshold s"
  "recalculationTimeout (advanceToNextStep s) = recalculationTimeout s"
  "pendingRouteRequests (advanceToNextStep s) = pendingRouteRequests s"
  "routeRequests (advanceToNextStep s) = routeRequests s"
  "uncaughtErrors (advanceToNextStep s) = uncaughtErrors s"
  by (simp_all add: advanceToNextStep_def Let_def)

lemma handleOffRoute_frame [simp]:
  "currentPosition (handleOffRoute s) = currentPosition s"
  "destinationMarker (handleOffRoute s) = destinationMarker s"
  "isNavigating (handleOffRoute s) = isNavigating s"
  "steps (handleOffRoute s) = steps s"
  "currentStepIndex (handleOffRoute s) = currentStepIndex s"
  "totalDistance (handleOffRoute s) = totalDistance s"
  "totalDuration (handleOffRoute s) = totalDuration s"
  "remainingDistance (handleOffRoute s) = remainingDistance s"
  "routeGeometry (handleOffRoute s) = routeGeometry s"
  "routeLine (handleOffRoute s) = routeLine s"
  "voiceEnabled (handleOffRoute s) = voiceEnabled s"
  "lastSpokenInstruction (handleOffRoute s) = lastSpokenInstruction s"
  "currentSpeed (handleOffRoute s) = currentSpeed s"
  "offRouteThreshold (handleOffRoute s) = offRouteThreshold s"
  "pendingRouteRequests (handleOffRoute s) = pendingRouteRequests s"
  "routeRequests (handleOffRoute s) = routeRequests s"
  "uncaughtErrors (handleOffRoute s) = uncaughtErrors s"
  by (simp_all add: handleOffRoute_def Let_def)

lemma updateNavigation_frame [simp]:
  "currentPosition (updateNavigation s) = currentPosition s"
  "destinationMarker (updateNavigation s) = destinationMarker s"
  "isNavigating (updateNavigation s) = isNavigating s"
  "steps (updateNavigation s) = steps s"
  "totalDistance (updateNavigation s) = totalDistance s"
  "totalDuration (updateNavigation s) = totalDuration s"
  "routeGeometry (updateNavigation s) = routeGeometry s"
  "routeLine (updateNavigation s) = routeLine s"
  "voiceEnabled (updateNavigation s) = voiceEnabled s"
  "currentSpeed (updateNavigation s) = currentSpeed s"
  "offRouteThreshold (updateNavigation s) = offRouteThreshold s"
  "pendingRouteRequests (updateNavigation s) = pendingRouteRequests s"
  "routeRequests (updateNavigation s) = routeRequests s"
  "uncaughtErrors (updateNavigation s) = uncaughtErrors s"
  by (simp_all add: updateNavigation_def Let_def split: option.splits)

lemma handleLocationUpdate_frame [simp]:
  "destinationMarker (handleLocationUpdate p s) = destinationMarker s"
  "isNavigating (handleLocationUpdate p s) = isNavigating s"
  "steps (handleLocationUpdate p s) = steps s"
  "totalDistance (handleLocationUpdate p s) = totalDistance s"
  "totalDuration (handleLocationUpdate p s) = totalDuration s"
  "routeGeometry (handleLocationUpdate p s) = routeGeometry s"
  "routeLine (handleLocationUpdate p s) = routeLine s"
  "voiceEnabled (handleLocationUpdate p s) = voiceEnabled s"
  "offRouteThreshold (handleLocationUpdate p s) = offRouteThreshold s"
  "pendingRouteRequests (handleLocationUpdate p s) = pendingRouteRequests s"
  "routeRequests (handleLocationUpdate p s) = routeRequests s"
  "uncaughtErrors (handleLocationUpdate p s) = uncaughtErrors s"
  by (simp_all add: handleLocationUpdate_def Let_def split: option.splits)

subsection \<open>What each method changes\<close>


lemma showToast_toasts [simp]: "toasts (showToast m s) = toasts s @ [m]"
  by (simp add: showToast_def)

lemma setTimeout_effect [simp]:
  "fst (setTimeout cb s) = nextTimerId s"
  "timers (snd (setTimeout cb s)) = timers s @ [(nextTimerId s, cb)]"
  "nextTimerId (snd (setTimeout cb s)) = Suc (nextTimerId s)"
  by (simp_all add: setTimeout_def)

lemma arriveAtDestination_effect [simp]:
  "toasts (arriveAtDestination s) = toasts s @ [''You have arrived!'']"
  "timers (arriveAtDestination s) = timers s @ [(nextTimerId s, ArrivalCallback)]"
  "nextTimerId (arriveAtDestination s) = Suc (nextTimerId s)"
  by (simp_all add: arriveAtDestination_def)

lemma advanceToNextStep_index [simp]:
  "currentStepIndex (advanceToNextStep s) = Suc (currentStepIndex s)"
  by (simp add: advanceToNextStep_def Let_def)

lemma advanceToNextStep_effect:
  "toasts (advanceToNextStep s) =
     (if length (steps s) \<le> Suc (currentStepIndex s) then toasts s @ [''You have arrived!'']
      else toasts s)"
  "timers (advanceToNextStep s) =
     (if length (steps s) \<le> Suc (currentStepIndex s)
      then timers s @ [(nextTimerId s, ArrivalCallback)] else timers s)"
  "nextTimerId (advanceToNextStep s) =
     (if length (steps s) \<le> Suc (currentStepIndex s) then Suc (nextTimerId s)
      else nextTimerId s)"
  by (simp_all add: advanceToNextStep_def Let_def)

lemma handleOffRoute_effect:
  "toasts (handleOffRoute s) =
     (if truthy (recalculationTimeout s) then toasts s
      else toasts s @ [''Recalculating route...''])"
  "timers (handleOffRoute s) =
     (if truthy (recalculationTimeout s) then timers s
      else timers s @ [(nextTimerId s, RecalculationCallback)])"
  "recalculationTimeout (handleOffRoute s) =
     (if truthy (recalculationTimeout s) then recalculationTimeout s
      else Some (nextTimerId s))"
  by (simp_all add: handleOffRoute_def Let_def)

lemma handleLocationUpdate_position:
  "currentPosition (handleLocationUpdate p s) = Some p"
  by (simp add: handleLocationUpdate_def Let_def split: option.splits)


lemma run_append: "run (es @ fs) s = run fs (run es s)"
  by (induction es arbitrary: s) simp_all

subsection \<open>Distances on the equator\<close>

lemma calculateDistance_same: "calculateDistance a b a b = 0"
  by (simp add: calculateDistance_def atan2_def)

lemma haversine_angle:
  assumes "0 \<le> x" "x \<le> pi / 2" and A: "A = sin x * sin x"
  shows "atan2 (sqrt A) (sqrt (1 - A)) = x"
proof -
  have s: "0 \<le> sin x" using assms by (simp add: sin_ge_zero)
  have c: "0 \<le> cos x" using assms by (simp add: cos_ge_zero)
  have e1: "sqrt A = sin x" unfolding A using s by simp
  have "1 - A = cos x * cos x"
    unfolding A using sin_cos_squared_add [of x] by (simp add: power2_eq_square algebra_simps)
  then have e2: "sqrt (1 - A) = cos x" using c by simp
  show ?thesis
  proof (cases "x = pi / 2")
    case True
    have "sin x = 1" unfolding True by (rule sin_pi_half)
    moreover have "cos x = 0" unfolding True by (rule cos_pi_half)
    ultimately have "atan2 (sin x) (cos x) = pi / 2" by (simp add: atan2_def)
    also have "pi / 2 = x" by (rule True [symmetric])
    finally show ?thesis unfolding e1 e2 .
  next
    case False
    with assms(2) have up: "x < pi / 2" by linarith
    have lo: "- (pi / 2) < x" using assms(1) pi_gt_zero by linarith
    have cp: "0 < cos x" using lo up by (rule cos_gt_zero_pi)
    have "arctan (tan x) = x" using lo up by (rule arctan_tan)
    then have "arctan (sin x / cos x) = x" by (simp add: tan_def)
    then show ?thesis unfolding e1 e2 using cp by (simp add: atan2_def)
  qed
qed

lemma equator_east:
  assumes "0 \<le> d" "d \<le> 180"
  shows "calculateDistance 0 x 0 (x + d) = 6371000 * (d * pi / 180)"
proof -
  define A where "A = sin (d * pi / 360) * sin (d * pi / 360)"
  have "calculateDistance 0 x 0 (x + d) = 6371000 * (2 * atan2 (sqrt A) (sqrt (1 - A)))"
    unfolding A_def calculateDistance_def Let_def by simp
  moreover have "atan2 (sqrt A) (sqrt (1 - A)) = d * pi / 360"
    using assms by (intro haversine_angle) (simp_all add: A_def)
  ultimately show ?thesis by simp
qed

lemma equator_west:
  assumes "0 \<le> d" "d \<le> 180"
  shows "calculateDistance 0 (x + d) 0 x = 6371000 * (d * pi / 180)"
proof -
  define A where "A = sin (d * pi / 360) * sin (d * pi / 360)"
  have "(x - (x + d)) * pi / 180 / 2 = - (d * pi / 360)" by simp
  then have "calculateDistance 0 (x + d) 0 x = 6371000 * (2 * atan2 (sqrt A) (sqrt (1 - A)))"
    unfolding A_def calculateDistance_def Let_def by simp
  moreover have "atan2 (sqrt A) (sqrt (1 - A)) = d * pi / 360"
    using assms by (intro haversine_angle) (simp_all add: A_def)
  ultimately show ?thesis by simp
qed

lemma equator_distance:
  assumes "\<bar>b - a\<bar> \<le> 180"
  shows "calculateDistance 0 a 0 b = 6371000 * (\<bar>b - a\<bar> * pi / 180)"
proof (cases "a \<le> b")
  case True
  then have "calculateDistance 0 a 0 (a + (b - a)) = 6371000 * ((b - a) * pi / 180)"
    using assms by (intro equator_east) simp_all
  then show ?thesis using True by simp
next
  case False
  then have "calculateDistance 0 (b + (a - b)) 0 b = 6371000 * ((a - b) * pi / 180)"
    using assms by (intro equator_west) simp_all
  then show ?thesis using False by simp
qed

subsection \<open>Evaluating the scenarios\<close>

lemmas eval_defs = handleLocationUpdate_def updateNavigation_def updateNavigationUI_def
  advanceToNextStep_def arriveAtDestination_def handleOffRoute_def speakInstruction_def
  showToast_def setTimeout_def Let_def calculateDistanceToRoute_def
  calculateDistanceAlongRoute_def distanceToLineSegment_def equator_distance sampleAt_def
  timerFires_def recalculationStart_def recalculationFinish_def stopNavigation_def
  clearTimeout_def

lemma demoStart_eq:
  "demoStart =
     \<lparr>currentPosition = None, destinationMarker = Some (0, 1 / 100), isNavigating = True,
      steps = [\<lparr>instruction = ''Head forward onto A Street'', distance = 556, duration = 60,
                name = ''A Street'', distanceFromStart = 0, location = (0, 0)\<rparr>,
               \<lparr>instruction = ''Turn left onto B Street'', distance = 556, duration = 60,
                name = ''B Street'', distanceFromStart = 556, location = (1 / 200, 0)\<rparr>,
               \<lparr>instruction = ''You have arrived at your destination'', distance = 0,
                duration = 0, name = ''B Street'', distanceFromStart = 1112,
                location = (1 / 100, 0)\<rparr>],
      currentStepIndex = 0, totalDistance = 1112, totalDuration = 120,
      remainingDistance = 1112, routeGeometry = [(0, 0), (1 / 200, 0), (1 / 100, 0)],
      routeLine = Some [(0, 0), (0, 1 / 200), (0, 1 / 100)],
      voiceEnabled = True, lastSpokenInstruction = None, currentSpeed = 0,
      offRouteThreshold = 50, recalculationTimeout = None, timers = [],
      nextTimerId = 1, pendingRouteRequests = 0, routeRequests = [],
      spoken = [Say ''Head forward onto A Street''],
      toasts = [''Navigation started!''], uncaughtErrors = 0\<rparr>"
  by (simp add: demoStart_def demoRoute_def initialNav_def startNavigationWithRoute_def
      storeRoute_def drawRoute_def formatInstruction_def speakInstruction_def showToast_def
      Let_def)

lemma sparseStart_eq: "sparseStart = demoStart\<lparr>steps :=
   [\<lparr>instruction = ''Head forward onto A Street'', distance = 556, duration = 60,
                name = ''A Street'', distanceFromStart = 0, location = (- 1 / 1000, 0)\<rparr>,
               \<lparr>instruction = ''Turn left onto B Street'', distance = 556, duration = 60,
                name = ''B Street'', distanceFromStart = 556, location = (1 / 200, 0)\<rparr>,
               \<lparr>instruction = ''You have arrived at your destination'', distance = 0,
                duration = 0, name = ''B Street'', distanceFromStart = 1112,
                location = (1 / 100, 0)\<rparr>]\<rparr>"
  by (simp add: demoStart_eq sparseStart_def sparseRoute_def demoRoute_def initialNav_def startNavigationWithRoute_def
      storeRoute_def drawRoute_def formatInstruction_def speakInstruction_def showToast_def
      Let_def)

lemma clusterStart_eq:
  "clusterStart = demoStart\<lparr>steps :=
     [\<lparr>instruction = ''Head forward onto A Street'', distance = 11, duration = 60,
       name = ''A Street'', distanceFromStart = 0, location = (0, 0)\<rparr>,
      \<lparr>instruction = ''Turn left onto B Street'', distance = 1101, duration = 60,
       name = ''B Street'', distanceFromStart = 11, location = (1 / 10000, 0)\<rparr>,
      \<lparr>instruction = ''You have arrived at your destination'', distance = 0,
       duration = 0, name = ''B Street'', distanceFromStart = 1112,
       location = (1 / 100, 0)\<rparr>]\<rparr>"
  by (simp add: demoStart_eq clusterStart_def clusterRoute_def demoRoute_def initialNav_def
      startNavigationWithRoute_def storeRoute_def drawRoute_def formatInstruction_def
      speakInstruction_def showToast_def Let_def)

subsection \<open>Position tracking\<close>

text \<open>
  Claim C2, as the code has it: \<open>handleLocationUpdate\<close> has no filter. Every incoming
  sample is accepted and becomes the current position, whatever its accuracy and however
  little it is displaced from the previous sample.
\<close>

theorem every_sample_accepted:
  "currentPosition (handleLocationUpdate p s) = Some p"
  by (simp add: handleLocationUpdate_def Let_def split: option.splits)

text \<open>
  The claim as written fails: after a fix of 5 m accuracy, a sample at the same place
  with an accuracy radius of 500 m (above the 100 m ceiling, not displaced, not more
  accurate) replaces the good fix during navigation.
\<close>

theorem noisy_sample_replaces_good_fix:
  "100 < accuracy noisySample \<and> accuracy goodSample < accuracy noisySample
   \<and> calculateDistance (lat goodSample) (lng goodSample) (lat noisySample) (lng noisySample) < 2
   \<and> currentPosition (run [LocationUpdate goodSample, LocationUpdate noisySample] demoStart)
       = Some noisySample
   \<and> Some noisySample \<noteq> Some goodSample"
  by (simp add: handleLocationUpdate_def Let_def goodSample_def noisySample_def sampleAt_def
      calculateDistance_same split: option.splits)

subsection \<open>Step advancement\<close>

text \<open>
  Claim C3: on a position update while navigating with a current step, if the
  great-circle distance from the position to the step's maneuver location is below 20 m,
  the step index goes up by one; if the new index is past the last step, arrival is
  declared (once more than before, with the stop timer queued), otherwise no arrival is
  declared. The session is still navigating after the update in both cases: on arrival
  \<open>stopNavigation\<close> runs only when the timer set by \<open>arriveAtDestination\<close> fires.
\<close>

theorem advance_within_completion_radius:
  assumes "isNavigating s" "currentStepIndex s < length (steps s)"
    "calculateDistance (lat p) (lng p) (snd (location (steps s ! currentStepIndex s)))
        (fst (location (steps s ! currentStepIndex s))) < 20"
  shows "currentStepIndex (handleLocationUpdate p s) = Suc (currentStepIndex s)
     \<and> isNavigating (handleLocationUpdate p s)
     \<and> (if length (steps s) \<le> Suc (currentStepIndex s)
         then arrivals (handleLocationUpdate p s) = Suc (arrivals s)
            \<and> (nextTimerId s, ArrivalCallback) \<in> set (timers (handleLocationUpdate p s))
         else arrivals (handleLocationUpdate p s) = arrivals s)"
  using assms by (simp add: handleLocationUpdate_def updateNavigation_def Let_def arrivals_def
     advanceToNextStep_effect handleOffRoute_effect split: option.splits)

text \<open>
  At the start of the demo route a sample on the first anchor moves the index from 0 to
  1 without arrival; with the last step current, a sample on the destination moves the
  index past the end and declares arrival.
\<close>

theorem advance_within_completion_radius_witness:
  "isNavigating demoStart \<and> currentStepIndex demoStart < length (steps demoStart)
   \<and> calculateDistance (lat (sampleAt 0)) (lng (sampleAt 0))
        (snd (location (steps demoStart ! currentStepIndex demoStart)))
        (fst (location (steps demoStart ! currentStepIndex demoStart))) < 20
   \<and> currentStepIndex (handleLocationUpdate (sampleAt 0) demoStart) = 1
   \<and> arrivals (handleLocationUpdate (sampleAt 0) demoStart) = 0
   \<and> currentStepIndex
        (handleLocationUpdate (sampleAt (1 / 100)) (demoStart\<lparr>currentStepIndex := 2\<rparr>)) = 3
   \<and> arrivals
        (handleLocationUpdate (sampleAt (1 / 100)) (demoStart\<lparr>currentStepIndex := 2\<rparr>)) = 1"
  using advance_within_completion_radius [of demoStart "sampleAt 0"]
    advance_within_completion_radius [of "demoStart\<lparr>currentStepIndex := 2\<rparr>" "sampleAt (1 / 100)"]
  by (simp add: demoStart_eq sampleAt_def calculateDistance_same arrivals_def)

text \<open>
  Claim C10: a single position update raises the step index by at most one (and never
  lowers it), wherever the position is; reaching a later step takes further updates.
\<close>

theorem step_index_advances_at_most_once:
  "currentStepIndex s \<le> currentStepIndex (handleLocationUpdate p s)
   \<and> currentStepIndex (handleLocationUpdate p s) \<le> Suc (currentStepIndex s)"
  by (simp add: handleLocationUpdate_def updateNavigation_def Let_def split: option.splits)

text \<open>
  With two anchors 11 m apart, a sample on the first is within 20 m of both. One update
  moves the index from 0 to 1 only; the same sample once more moves it to 2.
\<close>

theorem step_index_advances_at_most_once_witness:
  "calculateDistance (lat (sampleAt 0)) (lng (sampleAt 0))
      (snd (location (steps clusterStart ! 0))) (fst (location (steps clusterStart ! 0))) < 20
   \<and> calculateDistance (lat (sampleAt 0)) (lng (sampleAt 0))
      (snd (location (steps clusterStart ! 1))) (fst (location (steps clusterStart ! 1))) < 20
   \<and> currentStepIndex clusterStart = 0
   \<and> currentStepIndex (handleLocationUpdate (sampleAt 0) clusterStart) = 1
   \<and> currentStepIndex
        (run [LocationUpdate (sampleAt 0), LocationUpdate (sampleAt 0)] clusterStart) = 2"
  using step_index_advances_at_most_once [of clusterStart "sampleAt 0"] pi_ge_two pi_less_4
  by (simp add: clusterStart_eq demoStart_eq eval_defs calculateDistance_same)

subsection \<open>Step advancement and the off-route check on one tick\<close>

text \<open>
  Claim C5, as the code has it: \<open>updateNavigation\<close> runs the off-route check after the
  step check on every tick, with no \<open>else\<close> between them. On a tick on which the position
  is within the completion radius of the current anchor, the step is advanced and, when
  the position is farther from the polyline than the off-route threshold and no
  recalculation timer is held, \<open>handleOffRoute\<close> starts the recalculation timer on that
  same tick. Its handle is the next free one, or the one after it when the advance
  declared arrival and queued the stop timer first.
\<close>

theorem advance_does_not_skip_off_route:
  assumes "isNavigating s" "currentStepIndex s < length (steps s)"
    "calculateDistance (lat p) (lng p) (snd (location (steps s ! currentStepIndex s)))
        (fst (location (steps s ! currentStepIndex s))) < 20"
    "js_greater (calculateDistanceToRoute p s) (offRouteThreshold s)"
    "\<not> truthy (recalculationTimeout s)"
  shows "currentStepIndex (handleLocationUpdate p s) = Suc (currentStepIndex s)
     \<and> recalculationTimeout (handleLocationUpdate p s) =
          Some (if length (steps s) \<le> Suc (currentStepIndex s) then Suc (nextTimerId s)
                else nextTimerId s)
     \<and> ((if length (steps s) \<le> Suc (currentStepIndex s) then Suc (nextTimerId s)
          else nextTimerId s), RecalculationCallback)
        \<in> set (timers (handleLocationUpdate p s))"
  using assms
  by (simp add: handleLocationUpdate_def updateNavigation_def Let_def
      advanceToNextStep_effect handleOffRoute_effect calculateDistanceToRoute_def
      split: option.splits if_splits)

text \<open>
  With the departure anchored 111 m before the polyline, a sample on the anchor
  satisfies every hypothesis: the step advances and timer 1 is the recalculation timer.
\<close>

theorem advance_does_not_skip_off_route_witness:
  "isNavigating sparseStart \<and> currentStepIndex sparseStart < length (steps sparseStart)
   \<and> calculateDistance (lat (sampleAt (- 1 / 1000))) (lng (sampleAt (- 1 / 1000)))
        (snd (location (steps sparseStart ! currentStepIndex sparseStart)))
        (fst (location (steps sparseStart ! currentStepIndex sparseStart))) < 20
   \<and> js_greater (calculateDistanceToRoute (sampleAt (- 1 / 1000)) sparseStart)
         (offRouteThreshold sparseStart)
   \<and> \<not> truthy (recalculationTimeout sparseStart)
   \<and> currentStepIndex (handleLocationUpdate (sampleAt (- 1 / 1000)) sparseStart) = 1
   \<and> recalculationTimeout (handleLocationUpdate (sampleAt (- 1 / 1000)) sparseStart) = Some 1
   \<and> (1, RecalculationCallback)
        \<in> set (timers (handleLocationUpdate (sampleAt (- 1 / 1000)) sparseStart))"
  using advance_does_not_skip_off_route [of sparseStart "sampleAt (- 1 / 1000)"]
    pi_ge_two pi_less_4
  by (simp add: sparseStart_eq demoStart_eq calculateDistanceToRoute_def
      distanceToLineSegment_def equator_distance sampleAt_def calculateDistance_same)

text \<open>
  The claim as written fails on that tick: the position is within 20 m of the anchor and
  more than 50 m from the polyline, the step index goes from 0 to 1, and off-route
  handling is initiated all the same (the recalculation timer is queued and held).
\<close>

theorem off_route_handled_on_advancing_tick:
  "calculateDistance (lat (sampleAt (- 1 / 1000))) (lng (sampleAt (- 1 / 1000)))
      (snd (location (steps sparseStart ! currentStepIndex sparseStart)))
      (fst (location (steps sparseStart ! currentStepIndex sparseStart))) < 20
   \<and> js_greater (calculateDistanceToRoute (sampleAt (- 1 / 1000)) sparseStart)
         (offRouteThreshold sparseStart)
   \<and> currentStepIndex (handleLocationUpdate (sampleAt (- 1 / 1000)) sparseStart) = 1
   \<and> recalculationTimeout (handleLocationUpdate (sampleAt (- 1 / 1000)) sparseStart) = Some 1
   \<and> timers (handleLocationUpdate (sampleAt (- 1 / 1000)) sparseStart)
        = [(1, RecalculationCallback)]
   \<and> toasts (handleLocationUpdate (sampleAt (- 1 / 1000)) sparseStart)
        = [''Navigation started!'', ''Recalculating route...'']"
  using pi_ge_two pi_less_4
  by (simp add: sparseStart_eq demoStart_eq eval_defs calculateDistance_same)

subsection \<open>Remaining distance\<close>

text \<open>
  What an update writes into \<open>remainingDistance\<close> when the session is navigating and has
  a current step.
\<close>

lemma remainingDistance_written:
  assumes "isNavigating s" "currentStepIndex s < length (steps s)"
  shows "remainingDistance (handleLocationUpdate p s) =
     distanceFromStart (steps s ! currentStepIndex s) + distance (steps s ! currentStepIndex s)
     - calculateDistanceAlongRoute p s"
  using assms
  by (simp add: handleLocationUpdate_def updateNavigation_def Let_def
      calculateDistanceAlongRoute_def split: option.splits)

text \<open>
  Claim C4 against the code. \<open>startNavigationWithRoute\<close> and \<open>calculateRoute\<close> set the
  remaining distance to the route's total distance, and the progress bar reads it as the
  remaining distance of the whole route. \<open>updateNavigation\<close> subtracts the distance
  travelled from the end of the current step instead. On the demo route (total 1112 m,
  first step 556 m) the first update, 111 m after the start and nearest to the first
  vertex, has travelled 0 m along the route and stores 556 where the total minus the
  distance travelled is 1112. From the same subtraction, with the first step still
  current, a sample about 1 km down the road stores a negative value.
\<close>

theorem remaining_distance_from_step_end:
  "remainingDistance demoStart = 1112 \<and> totalDistance demoStart = 1112
   \<and> calculateDistanceAlongRoute (sampleAt (1 / 1000)) demoStart = 0
   \<and> remainingDistance (handleLocationUpdate (sampleAt (1 / 1000)) demoStart) = 556
   \<and> remainingDistance (handleLocationUpdate (sampleAt (1 / 1000)) demoStart)
       \<noteq> max 0 (totalDistance demoStart
                 - calculateDistanceAlongRoute (sampleAt (1 / 1000)) demoStart)
   \<and> remainingDistance (handleLocationUpdate (sampleAt (9 / 1000)) demoStart) < 0"
  using pi_ge_two pi_less_4
  by (simp add: demoStart_eq eval_defs)

subsection \<open>The recalculation timer\<close>

lemma updateNavigation_timers:
  "\<exists>ts. timers (updateNavigation s) = timers s @ ts"
  by (simp add: updateNavigation_def Let_def advanceToNextStep_effect handleOffRoute_effect
      split: option.splits)

lemma updateNavigation_pending:
  "truthy (recalculationTimeout s) \<Longrightarrow>
   recalculationTimeout (updateNavigation s) = recalculationTimeout s"
  by (simp add: updateNavigation_def Let_def handleOffRoute_effect split: option.splits)

lemma handleLocationUpdate_pending:
  assumes "recalculationTimeout s = Some h" "h \<noteq> 0"
    "map_of (timers s) h = Some RecalculationCallback" "destinationMarker s = Some d"
  shows "recalculationTimeout (handleLocationUpdate p s) = Some h
     \<and> map_of (timers (handleLocationUpdate p s)) h = Some RecalculationCallback
     \<and> destinationMarker (handleLocationUpdate p s) = Some d
     \<and> routeRequests (handleLocationUpdate p s) = routeRequests s"
proof -
  let ?s2 = "case speed p of None \<Rightarrow> s\<lparr>currentPosition := Some p\<rparr>
     | Some v \<Rightarrow> if 0 \<le> v then s\<lparr>currentPosition := Some p, currentSpeed := v * 3.6\<rparr>
                 else s\<lparr>currentPosition := Some p\<rparr>"
  have s2: "recalculationTimeout ?s2 = Some h" "timers ?s2 = timers s"
    "destinationMarker ?s2 = Some d" "routeRequests ?s2 = routeRequests s"
    using assms by (simp_all split: option.splits)
  have h: "handleLocationUpdate p s = (if isNavigating ?s2 then updateNavigation ?s2 else ?s2)"
    by (simp add: handleLocationUpdate_def Let_def split: option.splits)
  show ?thesis
  proof (cases "isNavigating ?s2")
    case False
    then show ?thesis using h s2 assms by simp
  next
    case True
    obtain ts where ts: "timers (updateNavigation ?s2) = timers ?s2 @ ts"
      using updateNavigation_timers by blast
    have "truthy (recalculationTimeout ?s2)" using s2 assms by simp
    then have "recalculationTimeout (updateNavigation ?s2) = Some h"
      using updateNavigation_pending s2 by simp
    moreover have "map_of (timers (updateNavigation ?s2)) h = Some RecalculationCallback"
      unfolding ts using s2 assms by (simp add: map_add_Some_iff)
    ultimately show ?thesis using h True s2 by simp
  qed
qed

lemma run_samples_pending:
  assumes "recalculationTimeout s = Some h" "h \<noteq> 0"
    "map_of (timers s) h = Some RecalculationCallback" "destinationMarker s = Some d"
  shows "recalculationTimeout (run (map LocationUpdate ps) s) = Some h
     \<and> map_of (timers (run (map LocationUpdate ps) s)) h = Some RecalculationCallback
     \<and> destinationMarker (run (map LocationUpdate ps) s) = Some d
     \<and> routeRequests (run (map LocationUpdate ps) s) = routeRequests s"
  using assms
proof (induction ps arbitrary: s)
  case Nil
  then show ?case by simp
next
  case (Cons p ps)
  have step: "recalculationTimeout (handleLocationUpdate p s) = Some h
     \<and> map_of (timers (handleLocationUpdate p s)) h = Some RecalculationCallback
     \<and> destinationMarker (handleLocationUpdate p s) = Some d
     \<and> routeRequests (handleLocationUpdate p s) = routeRequests s"
    using Cons.prems by (rule handleLocationUpdate_pending)
  then show ?case using Cons.IH [of "handleLocationUpdate p s"] Cons.prems(2) by simp
qed

lemma timerFires_recalculation:
  assumes "map_of (timers s) h = Some RecalculationCallback" "destinationMarker s = Some d"
    "currentPosition s = Some p"
  shows "routeRequests (timerFires h s) = routeRequests s @ [(lat p, lng p, fst d, snd d)]"
    "pendingRouteRequests (timerFires h s) = Suc (pendingRouteRequests s)"
  using assms by (simp_all add: timerFires_def recalculationStart_def Let_def)

text \<open>
  Claim C1, as the code has it: once an off-route sample has started the recalculation
  timer, the samples that follow before it fires, under or over the threshold, neither
  cancel nor restart it: the field keeps the handle, no request is sent meanwhile, and
  when the timer fires the route request is sent from the position of the latest sample
  to the destination. Re-joining the route does not cancel the pending recalculation.
\<close>

theorem pending_recalculation_survives_samples:
  assumes "recalculationTimeout s = Some h" "h \<noteq> 0"
    "map_of (timers s) h = Some RecalculationCallback" "destinationMarker s = Some d"
  shows "recalculationTimeout (run (map LocationUpdate (ps @ [p])) s) = Some h
     \<and> routeRequests (run (map LocationUpdate (ps @ [p])) s) = routeRequests s
     \<and> routeRequests (run (map LocationUpdate (ps @ [p]) @ [TimerFires h]) s)
         = routeRequests s @ [(lat p, lng p, fst d, snd d)]"
proof -
  let ?s1 = "run (map LocationUpdate ps) s"
  let ?s2 = "handleLocationUpdate p ?s1"
  have r: "run (map LocationUpdate (ps @ [p])) s = ?s2"
    by (simp add: run_append)
  have i1: "recalculationTimeout ?s1 = Some h
     \<and> map_of (timers ?s1) h = Some RecalculationCallback
     \<and> destinationMarker ?s1 = Some d \<and> routeRequests ?s1 = routeRequests s"
    using assms by (rule run_samples_pending)
  then have i2: "recalculationTimeout ?s2 = Some h
     \<and> map_of (timers ?s2) h = Some RecalculationCallback
     \<and> destinationMarker ?s2 = Some d \<and> routeRequests ?s2 = routeRequests ?s1"
    using assms(2) by (intro handleLocationUpdate_pending) simp_all
  have "routeRequests (timerFires h ?s2) = routeRequests ?s2 @ [(lat p, lng p, fst d, snd d)]"
    using i2 handleLocationUpdate_position by (intro timerFires_recalculation) simp_all
  then show ?thesis using i1 i2 unfolding run_append r by simp
qed

text \<open>
  On the demo route a sample 111 m west of the start is off route and starts timer 1;
  from that state a sample back on the road, then the timer, send the request.
\<close>

theorem pending_recalculation_survives_samples_witness:
  "recalculationTimeout (handleLocationUpdate (sampleAt (- 1 / 1000)) demoStart) = Some 1
   \<and> (1::nat) \<noteq> 0
   \<and> map_of (timers (handleLocationUpdate (sampleAt (- 1 / 1000)) demoStart)) 1
       = Some RecalculationCallback
   \<and> destinationMarker (handleLocationUpdate (sampleAt (- 1 / 1000)) demoStart)
       = Some (0, 1 / 100)
   \<and> routeRequests (run (map LocationUpdate ([] @ [sampleAt (3 / 1000)]) @ [TimerFires 1])
         (handleLocationUpdate (sampleAt (- 1 / 1000)) demoStart))
       = [(0, 3 / 1000, 0, 1 / 100)]"
  using pending_recalculation_survives_samples
      [of "handleLocationUpdate (sampleAt (- 1 / 1000)) demoStart" 1 "(0, 1 / 100)" "[]"
        "sampleAt (3 / 1000)"]
    pi_ge_two pi_less_4
  by (simp add: demoStart_eq eval_defs)

text \<open>
  The claim as written fails: one sample more than 50 m from the polyline, followed at
  once by a sample on the polyline, and then the timer: the external recalculation is
  requested.
\<close>

theorem rejoining_does_not_cancel_recalculation:
  "js_greater (calculateDistanceToRoute (sampleAt (- 1 / 1000)) demoStart) 50
   \<and> \<not> js_greater (calculateDistanceToRoute (sampleAt (3 / 1000)) demoStart) 50
   \<and> routeRequests (run [LocationUpdate (sampleAt (- 1 / 1000)),
         LocationUpdate (sampleAt (3 / 1000)), TimerFires 1] demoStart)
       = [(0, 3 / 1000, 0, 1 / 100)]"
  using pi_ge_two pi_less_4
  by (simp add: demoStart_eq eval_defs)

subsection \<open>A route response after navigation has stopped\<close>

text \<open>
  Claim C7 against the code. \<open>stopNavigation\<close> clears the recalculation timer, which
  cancels a recalculation that is still waiting for its timer: stopping right after the
  off-route sample leaves no timer queued. Once the timer has fired and the request is
  on its way, clearing the handle has no effect on it: when the response arrives after
  the stop, \<open>calculateRoute\<close> stores the new route and draws its line on the map that
  \<open>stopNavigation\<close> has just cleared, and the callback reports success. No error is
  raised, and the session stays stopped.
\<close>

theorem late_route_response_is_applied:
  "timers (run [LocationUpdate (sampleAt (- 1 / 1000)), StopPressed] demoStart) = []
   \<and> routeLine (run [LocationUpdate (sampleAt (- 1 / 1000)), TimerFires 1, StopPressed]
        demoStart) = None
   \<and> steps (run [LocationUpdate (sampleAt (- 1 / 1000)), TimerFires 1, StopPressed]
        demoStart) = steps demoStart
   \<and> routeLine (run [LocationUpdate (sampleAt (- 1 / 1000)), TimerFires 1, StopPressed,
        RouteResponse (Some detourRoute)] demoStart) = Some [(0, - 1 / 1000), (0, 1 / 100)]
   \<and> length (steps (run [LocationUpdate (sampleAt (- 1 / 1000)), TimerFires 1, StopPressed,
        RouteResponse (Some detourRoute)] demoStart)) = 2
   \<and> totalDistance (run [LocationUpdate (sampleAt (- 1 / 1000)), TimerFires 1, StopPressed,
        RouteResponse (Some detourRoute)] demoStart) = 1223
   \<and> toasts (run [LocationUpdate (sampleAt (- 1 / 1000)), TimerFires 1, StopPressed,
        RouteResponse (Some detourRoute)] demoStart)
      = [''Navigation started!'', ''Recalculating route...'', ''Navigation stopped'',
         ''Route recalculated'']
   \<and> \<not> isNavigating (run [LocationUpdate (sampleAt (- 1 / 1000)), TimerFires 1, StopPressed,
        RouteResponse (Some detourRoute)] demoStart)
   \<and> uncaughtErrors (run [LocationUpdate (sampleAt (- 1 / 1000)), TimerFires 1, StopPressed,
        RouteResponse (Some detourRoute)] demoStart) = 0"
  using pi_ge_two pi_less_4
  by (simp add: demoStart_eq eval_defs detourRoute_def storeRoute_def drawRoute_def)

subsection \<open>Announcements\<close>

lemma proximityAnnouncements_append [simp]:
  "proximityAnnouncements (xs @ ys) = proximityAnnouncements xs + proximityAnnouncements ys"
  by (induction xs rule: proximityAnnouncements.induct) simp_all

lemma speakInstruction_count [simp]:
  "proximityAnnouncements (spoken (speakInstruction (Say t) s)) = proximityAnnouncements (spoken s)"
  "proximityAnnouncements (spoken (speakInstruction (SayIn d t) s)) =
     (if voiceEnabled s then Suc (proximityAnnouncements (spoken s))
      else proximityAnnouncements (spoken s))"
  by (simp_all add: speakInstruction_def)

lemma arriveAtDestination_count [simp]:
  "proximityAnnouncements (spoken (arriveAtDestination s)) = proximityAnnouncements (spoken s)"
  by (simp add: arriveAtDestination_def setTimeout_def showToast_def)

lemma advanceToNextStep_count [simp]:
  "proximityAnnouncements (spoken (advanceToNextStep s)) = proximityAnnouncements (spoken s)"
  by (simp add: advanceToNextStep_def Let_def)

lemma handleOffRoute_count [simp]:
  "proximityAnnouncements (spoken (handleOffRoute s)) = proximityAnnouncements (spoken s)"
  by (simp add: handleOffRoute_def Let_def setTimeout_def showToast_def)

lemma updateNavigationUI_count:
  "proximityAnnouncements (spoken (updateNavigationUI d st s)) =
     (if d < 200 \<and> Some (instruction st) \<noteq> lastSpokenInstruction s \<and> voiceEnabled s
      then Suc (proximityAnnouncements (spoken s)) else proximityAnnouncements (spoken s))"
  by (simp add: updateNavigationUI_def)


lemma handleOffRoute_last [simp]:
  "lastSpokenInstruction (handleOffRoute s) = lastSpokenInstruction s"
  by (simp add: handleOffRoute_def Let_def)

lemma handleLocationUpdate_idle:
  "\<not> isNavigating s \<Longrightarrow> spoken (handleLocationUpdate p s) = spoken s"
  "\<not> isNavigating s \<Longrightarrow> currentStepIndex (handleLocationUpdate p s) = currentStepIndex s"
  by (simp_all add: handleLocationUpdate_def Let_def split: option.splits)

lemma handleLocationUpdate_arrived:
  "length (steps s) \<le> currentStepIndex s \<Longrightarrow>
   proximityAnnouncements (spoken (handleLocationUpdate p s)) = proximityAnnouncements (spoken s)"
  "length (steps s) \<le> currentStepIndex s \<Longrightarrow>
   currentStepIndex (handleLocationUpdate p s) = currentStepIndex s"
  by (simp_all add: handleLocationUpdate_def updateNavigation_def Let_def split: option.splits)

text \<open>One update of a navigating session that has a current step.\<close>

lemma tick_count:
  assumes "isNavigating s" "currentStepIndex s < length (steps s)"
  shows "proximityAnnouncements (spoken (handleLocationUpdate p s)) =
     proximityAnnouncements (spoken s) +
     (if calculateDistance (lat p) (lng p) (snd (location (steps s ! currentStepIndex s)))
            (fst (location (steps s ! currentStepIndex s))) < 200
         \<and> Some (instruction (steps s ! currentStepIndex s)) \<noteq> lastSpokenInstruction s
         \<and> voiceEnabled s
      then 1 else 0)"
  using assms
  by (auto simp add: handleLocationUpdate_def updateNavigation_def Let_def
      updateNavigationUI_count split: option.splits)








text \<open>The log only grows, so the difference taken by \<open>announcedWhile\<close> is exact.\<close>

lemma proximityAnnouncements_grow:
  "proximityAnnouncements (spoken s)
     \<le> proximityAnnouncements (spoken (handleLocationUpdate p s))"
proof (cases "isNavigating s \<and> currentStepIndex s < length (steps s)")
  case True
  then show ?thesis using tick_count [of s p] by simp
next
  case False
  then show ?thesis
    using handleLocationUpdate_idle(1) [of s p] handleLocationUpdate_arrived(1) [of s p]
    by (cases "isNavigating s") auto
qed










subsection \<open>Map matching\<close>

lemma scanSegments_min:
  "segmentDistances pos g \<noteq> [] \<Longrightarrow>
   scanSegments pos g (Num m) = Num (Min (insert m (set (segmentDistances pos g))))"
proof (induction pos g "Num m" arbitrary: m rule: scanSegments.induct)
  case (1 pos point1 point2 rest)
  let ?d = "distanceToLineSegment (lat pos) (lng pos)
       (snd point1) (fst point1) (snd point2) (fst point2)"
  show ?case
  proof (cases "segmentDistances pos (point2 # rest) = []")
    case True
    then have "scanSegments pos (point2 # rest) (Num (min m ?d)) = Num (min m ?d)"
      by (cases rest) simp_all
    then show ?thesis using True by (simp add: min.commute)
  next
    case False
    then have "scanSegments pos (point2 # rest) (Num (min m ?d))
        = Num (Min (insert (min m ?d) (set (segmentDistances pos (point2 # rest)))))"
      using "1.hyps" [of "min m ?d"] by simp
    moreover have "Min (insert (min m ?d) (set (segmentDistances pos (point2 # rest))))
        = Min (insert m (insert ?d (set (segmentDistances pos (point2 # rest)))))"
      using False by (simp add: min.assoc)
    ultimately show ?thesis by simp
  qed
qed simp_all

lemma calculateDistanceToRoute_min:
  assumes "2 \<le> length (routeGeometry s)"
  shows "calculateDistanceToRoute pos s
     = Num (Min (set (segmentDistances pos (routeGeometry s))))"
proof -
  obtain p1 p2 rest where g: "routeGeometry s = p1 # p2 # rest"
    using assms by (cases "routeGeometry s"; cases "tl (routeGeometry s)") auto
  let ?d = "distanceToLineSegment (lat pos) (lng pos) (snd p1) (fst p1) (snd p2) (fst p2)"
  show ?thesis
  proof (cases "segmentDistances pos (p2 # rest) = []")
    case True
    then have "scanSegments pos (p2 # rest) (Num ?d) = Num ?d" by (cases rest) simp_all
    then show ?thesis using True g by (simp add: calculateDistanceToRoute_def)
  next
    case False
    then have "scanSegments pos (p2 # rest) (Num ?d)
        = Num (Min (insert ?d (set (segmentDistances pos (p2 # rest)))))"
      by (rule scanSegments_min)
    then show ?thesis using g by (simp add: calculateDistanceToRoute_def)
  qed
qed


lemma scanVertices_Num:
  assumes "scanVertices pos rest i (Num m) c = k"
  shows "(k = c \<and> (\<forall>j<length rest. m \<le> vertexDistance pos rest j))
     \<or> (\<exists>j<length rest. k = i + j \<and> vertexDistance pos rest j < m
           \<and> (\<forall>l<length rest. vertexDistance pos rest j \<le> vertexDistance pos rest l)
           \<and> (\<forall>l<j. vertexDistance pos rest j < vertexDistance pos rest l))"
  using assms
proof (induction rest arbitrary: i m c)
  case Nil
  then show ?case by simp
next
  case (Cons pt rest)
  let ?d = "calculateDistance (lat pos) (lng pos) (snd pt) (fst pt)"
  have v0: "vertexDistance pos (pt # rest) 0 = ?d" by (simp add: vertexDistance_def)
  have vS: "\<And>j. vertexDistance pos (pt # rest) (Suc j) = vertexDistance pos rest j"
    by (simp add: vertexDistance_def)
  have all_cons: "\<And>P. (\<forall>l<length (pt # rest). P l) = (P 0 \<and> (\<forall>l<length rest. P (Suc l)))"
    by (auto simp: less_Suc_eq_0_disj)
  have all_suc: "\<And>P j. (\<forall>l<Suc j. P l) = (P 0 \<and> (\<forall>l<j. P (Suc l)))"
    by (auto simp: less_Suc_eq_0_disj)
  show ?case
  proof (cases "?d < m")
    case True
    then have "scanVertices pos rest (Suc i) (Num ?d) i = k"
      using Cons.prems by (simp add: Let_def)
    then consider
      (stay) "k = i" "\<forall>j<length rest. ?d \<le> vertexDistance pos rest j"
      | (later) j where "j < length rest" "k = Suc i + j" "vertexDistance pos rest j < ?d"
          "\<forall>l<length rest. vertexDistance pos rest j \<le> vertexDistance pos rest l"
          "\<forall>l<j. vertexDistance pos rest j < vertexDistance pos rest l"
      using Cons.IH [of "Suc i" ?d i] by blast
    then show ?thesis
    proof cases
      case stay
      have "0 < length (pt # rest) \<and> k = i + 0 \<and> vertexDistance pos (pt # rest) 0 < m
           \<and> (\<forall>l<length (pt # rest). vertexDistance pos (pt # rest) 0
                  \<le> vertexDistance pos (pt # rest) l)
           \<and> (\<forall>l<0. vertexDistance pos (pt # rest) 0 < vertexDistance pos (pt # rest) l)"
        using stay True unfolding all_cons v0 vS by simp
      then show ?thesis by blast
    next
      case later
      have "Suc j < length (pt # rest) \<and> k = i + Suc j
           \<and> vertexDistance pos (pt # rest) (Suc j) < m
           \<and> (\<forall>l<length (pt # rest). vertexDistance pos (pt # rest) (Suc j)
                  \<le> vertexDistance pos (pt # rest) l)
           \<and> (\<forall>l<Suc j. vertexDistance pos (pt # rest) (Suc j)
                  < vertexDistance pos (pt # rest) l)"
        using later True unfolding all_cons all_suc v0 vS by simp
      then show ?thesis by blast
    qed
  next
    case False
    then have "scanVertices pos rest (Suc i) (Num m) c = k"
      using Cons.prems by (simp add: Let_def)
    then consider
      (stay) "k = c" "\<forall>j<length rest. m \<le> vertexDistance pos rest j"
      | (later) j where "j < length rest" "k = Suc i + j" "vertexDistance pos rest j < m"
          "\<forall>l<length rest. vertexDistance pos rest j \<le> vertexDistance pos rest l"
          "\<forall>l<j. vertexDistance pos rest j < vertexDistance pos rest l"
      using Cons.IH [of "Suc i" m c] by blast
    then show ?thesis
    proof cases
      case stay
      have "k = c \<and> (\<forall>j<length (pt # rest). m \<le> vertexDistance pos (pt # rest) j)"
        using stay False unfolding all_cons v0 vS by simp
      then show ?thesis by blast
    next
      case later
      have "Suc j < length (pt # rest) \<and> k = i + Suc j
           \<and> vertexDistance pos (pt # rest) (Suc j) < m
           \<and> (\<forall>l<length (pt # rest). vertexDistance pos (pt # rest) (Suc j)
                  \<le> vertexDistance pos (pt # rest) l)
           \<and> (\<forall>l<Suc j. vertexDistance pos (pt # rest) (Suc j)
                  < vertexDistance pos (pt # rest) l)"
        using later False unfolding all_cons all_suc v0 vS by simp
      then show ?thesis by blast
    qed
  qed
qed

lemma closestIndex_nearest:
  assumes "g \<noteq> []"
  shows "closestIndex pos g < length g
     \<and> (\<forall>j<length g. vertexDistance pos g (closestIndex pos g) \<le> vertexDistance pos g j)
     \<and> (\<forall>j<closestIndex pos g.
           vertexDistance pos g (closestIndex pos g) < vertexDistance pos g j)"
proof -
  obtain pt rest where g: "g = pt # rest" using assms by (cases g) auto
  define d where "d = calculateDistance (lat pos) (lng pos) (snd pt) (fst pt)"
  define k where "k = closestIndex pos g"
  have v0: "vertexDistance pos (pt # rest) 0 = d" by (simp add: vertexDistance_def d_def)
  have vS: "\<And>j. vertexDistance pos (pt # rest) (Suc j) = vertexDistance pos rest j"
    by (simp add: vertexDistance_def)
  have all_cons: "\<And>P. (\<forall>l<length (pt # rest). P l) = (P 0 \<and> (\<forall>l<length rest. P (Suc l)))"
    by (auto simp: less_Suc_eq_0_disj)
  have all_suc: "\<And>P j. (\<forall>l<Suc j. P l) = (P 0 \<and> (\<forall>l<j. P (Suc l)))"
    by (auto simp: less_Suc_eq_0_disj)
  have "scanVertices pos rest (Suc 0) (Num d) 0 = k"
    by (simp add: closestIndex_def g Let_def d_def k_def)
  then have "(k = 0 \<and> (\<forall>j<length rest. d \<le> vertexDistance pos rest j))
     \<or> (\<exists>j<length rest. k = Suc 0 + j \<and> vertexDistance pos rest j < d
           \<and> (\<forall>l<length rest. vertexDistance pos rest j \<le> vertexDistance pos rest l)
           \<and> (\<forall>l<j. vertexDistance pos rest j < vertexDistance pos rest l))"
    by (rule scanVertices_Num)
  then have "k < length (pt # rest)
     \<and> (\<forall>j<length (pt # rest). vertexDistance pos (pt # rest) k
            \<le> vertexDistance pos (pt # rest) j)
     \<and> (\<forall>j<k. vertexDistance pos (pt # rest) k < vertexDistance pos (pt # rest) j)"
  proof (elim disjE conjE exE)
    assume "k = 0" "\<forall>j<length rest. d \<le> vertexDistance pos rest j"
    then show ?thesis unfolding all_cons by (simp add: v0 vS)
  next
    fix j
    assume j: "j < length rest" "k = Suc 0 + j" "vertexDistance pos rest j < d"
      "\<forall>l<length rest. vertexDistance pos rest j \<le> vertexDistance pos rest l"
      "\<forall>l<j. vertexDistance pos rest j < vertexDistance pos rest l"
    have k: "k = Suc j" using j(2) by simp
    show ?thesis unfolding k all_cons all_suc v0 vS using j by simp
  qed
  then show ?thesis unfolding k_def g .
qed

lemma segmentLength_Cons [simp]:
  "segmentLength (p # g) (Suc i) = segmentLength g i"
  by (simp add: segmentLength_def)

lemma segmentLength_0:
  "segmentLength (p1 # p2 # rest) 0 = calculateDistance (snd p1) (fst p1) (snd p2) (fst p2)"
  by (simp add: segmentLength_def)

lemma lengthOfSegments_sum:
  "k < length g \<Longrightarrow> lengthOfSegments k g = (\<Sum>i<k. segmentLength g i)"
proof (induction k g rule: lengthOfSegments.induct)
  case (1 n point1 point2 rest)
  then have ih: "lengthOfSegments n (point2 # rest) = (\<Sum>i<n. segmentLength (point2 # rest) i)"
    by simp
  have "(\<Sum>i<Suc n. segmentLength (point1 # point2 # rest) i)
      = segmentLength (point1 # point2 # rest) 0
        + (\<Sum>i<n. segmentLength (point1 # point2 # rest) (Suc i))"
    by (rule sum.lessThan_Suc_shift)
  also have "\<dots> = calculateDistance (snd point1) (fst point1) (snd point2) (fst point2)
        + (\<Sum>i<n. segmentLength (point2 # rest) i)"
    by (simp only: segmentLength_0 segmentLength_Cons)
  finally show ?case using ih by simp
qed simp_all

text \<open>
  Claim C8, as the code has it. For every point and every polyline with at least two
  vertices, the distance to the route is the minimum of the point-to-segment distances
  over all consecutive pairs. The distance along the route comes from a separate scan
  of the vertices: it is the polyline length up to the nearest vertex (the first vertex
  at the least great-circle distance from the point), with no projected offset within a
  segment.
\<close>

theorem route_matching_by_nearest_vertex:
  assumes "2 \<le> length (routeGeometry s)"
  shows "calculateDistanceToRoute pos s
       = Num (Min (set (segmentDistances pos (routeGeometry s))))
     \<and> closestIndex pos (routeGeometry s) < length (routeGeometry s)
     \<and> (\<forall>j<length (routeGeometry s).
           vertexDistance pos (routeGeometry s) (closestIndex pos (routeGeometry s))
           \<le> vertexDistance pos (routeGeometry s) j)
     \<and> (\<forall>j<closestIndex pos (routeGeometry s).
           vertexDistance pos (routeGeometry s) (closestIndex pos (routeGeometry s))
           < vertexDistance pos (routeGeometry s) j)
     \<and> calculateDistanceAlongRoute pos s
       = (\<Sum>i<closestIndex pos (routeGeometry s). segmentLength (routeGeometry s) i)"
proof -
  have ne: "routeGeometry s \<noteq> []" using assms by auto
  have n: "closestIndex pos (routeGeometry s) < length (routeGeometry s)
     \<and> (\<forall>j<length (routeGeometry s).
           vertexDistance pos (routeGeometry s) (closestIndex pos (routeGeometry s))
           \<le> vertexDistance pos (routeGeometry s) j)
     \<and> (\<forall>j<closestIndex pos (routeGeometry s).
           vertexDistance pos (routeGeometry s) (closestIndex pos (routeGeometry s))
           < vertexDistance pos (routeGeometry s) j)"
    using ne by (rule closestIndex_nearest)
  then have "lengthOfSegments (closestIndex pos (routeGeometry s)) (routeGeometry s)
      = (\<Sum>i<closestIndex pos (routeGeometry s). segmentLength (routeGeometry s) i)"
    by (intro lengthOfSegments_sum) simp
  then have "calculateDistanceAlongRoute pos s
      = (\<Sum>i<closestIndex pos (routeGeometry s). segmentLength (routeGeometry s) i)"
    by (simp add: calculateDistanceAlongRoute_def closestIndex_def)
  then show ?thesis using n calculateDistanceToRoute_min [OF assms] by simp
qed

text \<open>
  On the demo route, 444 m from the start: the point is on the polyline, the nearest
  vertex is the second one, and the distance along is the length of the first segment,
  about 556 m.
\<close>

theorem route_matching_by_nearest_vertex_witness:
  "2 \<le> length (routeGeometry demoStart)
   \<and> calculateDistanceToRoute (sampleAt (4 / 1000)) demoStart
       = Num (Min (set (segmentDistances (sampleAt (4 / 1000)) (routeGeometry demoStart))))
   \<and> calculateDistanceAlongRoute (sampleAt (4 / 1000)) demoStart
       = (\<Sum>i<closestIndex (sampleAt (4 / 1000)) (routeGeometry demoStart).
            segmentLength (routeGeometry demoStart) i)
   \<and> calculateDistanceToRoute (sampleAt (4 / 1000)) demoStart = Num 0
   \<and> closestIndex (sampleAt (4 / 1000)) (routeGeometry demoStart) = 1
   \<and> calculateDistanceAlongRoute (sampleAt (4 / 1000)) demoStart
       = 6371000 * (1 / 200 * pi / 180)"
proof -
  have two: "2 \<le> length (routeGeometry demoStart)"
    by (simp add: demoStart_eq)
  note general = route_matching_by_nearest_vertex [OF two, of "sampleAt (4 / 1000)"]
  have concrete: "calculateDistanceToRoute (sampleAt (4 / 1000)) demoStart = Num 0
     \<and> closestIndex (sampleAt (4 / 1000)) (routeGeometry demoStart) = 1
     \<and> calculateDistanceAlongRoute (sampleAt (4 / 1000)) demoStart
         = 6371000 * (1 / 200 * pi / 180)"
    using pi_gt_zero
    by (simp add: demoStart_eq eval_defs closestIndex_def calculateDistance_same)
  from two general concrete show ?thesis by blast
qed

text \<open>
  The claim as written fails: 111 m along the first segment the point is on the polyline
  and the reported distance along is zero, the length up to the nearest vertex, where
  the specification's nearest-point computation gives the projected offset, 111 m.
\<close>

theorem distance_along_ignores_projected_offset:
  "calculateDistanceToRoute (sampleAt (1 / 1000)) demoStart = Num 0
   \<and> calculateDistanceAlongRoute (sampleAt (1 / 1000)) demoStart = 0
   \<and> spec_distanceAlongPolyline (sampleAt (1 / 1000)) (routeGeometry demoStart)
       = 6371000 * (1 / 1000 * pi / 180)
   \<and> calculateDistanceAlongRoute (sampleAt (1 / 1000)) demoStart
       \<noteq> spec_distanceAlongPolyline (sampleAt (1 / 1000)) (routeGeometry demoStart)"
  using pi_gt_zero
  by (simp add: demoStart_eq eval_defs spec_distanceAlongPolyline_def projectedOffset_def
      calculateDistance_same)

subsection \<open>Degenerate geometry\<close>

text \<open>
  Claim C9, as the code has it: the geometry functions are total. For two identical
  points \<open>calculateDistance\<close> is zero. On a zero-length segment \<open>distanceToLineSegment\<close>
  does not divide; it returns the great-circle distance from the point to the segment's
  only point, which is zero when the point lies on it.
\<close>

theorem degenerate_geometry:
  "calculateDistance a b a b = 0
   \<and> distanceToLineSegment px py x y x y = calculateDistance px py x y
   \<and> distanceToLineSegment x y x y x y = 0"
  by (simp add: distanceToLineSegment_def calculateDistance_same)

text \<open>
  The claim as written fails: a point about 111 m away from a zero-length segment is not
  at distance zero from it.
\<close>

theorem zero_length_segment_distance_nonzero:
  "distanceToLineSegment 0 (1 / 1000) 0 0 0 0 \<noteq> 0"
  using pi_gt_zero
  by (simp add: distanceToLineSegment_def equator_distance)

end
